theory Spec2Isabelle
  imports Main
begin

section \<open>Browser compatibility service (browser-compatibility.module.ts)\<close>

text \<open>
  A shallow embedding of \<^verbatim>\<open>BrowserCompatibilityService\<close>. Strings are \<^typ>\<open>string\<close>
  (byte lists, read as UTF-8): every needle the service searches for is ASCII, and an
  ASCII needle occurs in the UTF-8 bytes of a text exactly where it occurs in its UTF-16
  code units. \<^verbatim>\<open>toLowerCase\<close> and \<^verbatim>\<open>trim\<close> act on the ASCII letters and the ASCII
  white space; user agents, brand names and configured versions are ASCII texts.
  Numbers produced by \<^verbatim>\<open>parseInt\<close> are \<^typ>\<open>nat\<close>. The host computes with
  double-precision numbers, which hold every natural number below \<open>2 ^ 53\<close> exactly and
  round from there on, so the embedding is exact for components below \<open>2 ^ 53\<close>; what is
  proved of the values \<^verbatim>\<open>parseVersion\<close> returns is stated for such versions.
\<close>

subsection \<open>Enumerations and untyped values\<close>

datatype SupportedBrowser = CHROME | FIREFOX | SAFARI | EDGE | SAMSUNG | LINE | UNKNOWN

datatype Platform = DESKTOP | MOBILE | UNKNOWN_PLATFORM

text \<open>
  Values read through \<^verbatim>\<open>navigator as any\<close> carry no static type. Only their
  truthiness, their \<^verbatim>\<open>typeof\<close> and whether they have string methods matter here, so
  the primitive values are enough; a number is kept as an integer.
\<close>

datatype jsval = Undefined | Null | Bool bool | Num int | Str string

datatype error = TypeError

fun truthy :: "jsval \<Rightarrow> bool" where
  "truthy Undefined = False"
| "truthy Null = False"
| "truthy (Bool b) = b"
| "truthy (Num n) = (n \<noteq> 0)"
| "truthy (Str s) = (s \<noteq> [])"

subsection \<open>String primitives of the host language\<close>

fun startsWith :: "string \<Rightarrow> string \<Rightarrow> bool" where
  "startsWith s [] = True"
| "startsWith [] (c # t) = False"
| "startsWith (x # s) (c # t) = (x = c \<and> startsWith s t)"

definition endsWith :: "string \<Rightarrow> string \<Rightarrow> bool" where
  "endsWith s t = startsWith (rev s) (rev t)"

text \<open>\<^verbatim>\<open>s.includes(t)\<close>: \<open>t\<close> occurs at some position of \<open>s\<close>.\<close>

fun includesStr :: "string \<Rightarrow> string \<Rightarrow> bool" where
  "includesStr [] t = (t = [])"
| "includesStr (c # cs) t = (startsWith (c # cs) t \<or> includesStr cs t)"

text \<open>\<^verbatim>\<open>charCodeAt\<close> of one character.\<close>

definition code :: "char \<Rightarrow> nat" where
  "code c = of_char c"

definition is_upper :: "char \<Rightarrow> bool" where
  "is_upper c = (65 \<le> code c \<and> code c \<le> 90)"

definition lower_char :: "char \<Rightarrow> char" where
  "lower_char c = (if is_upper c then char_of (code c + 32) else c)"

definition toLowerCase :: "string \<Rightarrow> string" where
  "toLowerCase s = map lower_char s"

definition is_digit :: "char \<Rightarrow> bool" where
  "is_digit c = (48 \<le> code c \<and> code c \<le> 57)"

definition is_space :: "char \<Rightarrow> bool" where
  "is_space c = (code c = 32 \<or> (9 \<le> code c \<and> code c \<le> 13))"

definition trim :: "string \<Rightarrow> string" where
  "trim s = rev (dropWhile is_space (rev (dropWhile is_space s)))"

text \<open>\<^verbatim>\<open>s.split(c)\<close> for a one-character separator: never the empty array.\<close>

fun split :: "char \<Rightarrow> string \<Rightarrow> string list" where
  "split c [] = [[]]"
| "split c (x # xs) =
     (if x = c then [] # split c xs
      else (case split c xs of [] \<Rightarrow> [[x]] | y # ys \<Rightarrow> (x # y) # ys))"

fun join :: "string \<Rightarrow> string list \<Rightarrow> string" where
  "join sep [] = []"
| "join sep [x] = x"
| "join sep (x # y # ys) = x @ sep @ join sep (y # ys)"

text \<open>
  \<^verbatim>\<open>parseInt(ds, 10)\<close> on a text of decimal digits only; \<open>None\<close> is \<^verbatim>\<open>NaN\<close>. The
  result is the decimal value of the digits, which is what the host returns while that
  value is below \<open>2 ^ 53\<close>.
\<close>

definition digit_val :: "char \<Rightarrow> nat" where
  "digit_val c = code c - 48"

definition parseInt :: "string \<Rightarrow> nat option" where
  "parseInt ds = (if ds = [] then None else Some (foldl (\<lambda>n c. 10 * n + digit_val c) 0 ds))"

subsection \<open>Version comparator\<close>

text \<open>
  \<^verbatim>\<open>
  private parseVersion(version: string): number[] {
    return version.split('.').map((v) => {
      const num = parseInt(v.replace(/[^\d]/g, ''), 10);
      return isNaN(num) ? 0 : num;
    });
  }
  \<close>
\<close>

definition parseVersion :: "string \<Rightarrow> nat list" where
  "parseVersion ver =
     map (\<lambda>v. case parseInt (filter is_digit v) of None \<Rightarrow> 0 | Some num \<Rightarrow> num)
       (split (CHR ''.'') ver)"

text \<open>\<^verbatim>\<open>while (xs.length < 3) xs.push(z)\<close>\<close>

function push_until3 :: "'a \<Rightarrow> 'a list \<Rightarrow> 'a list" where
  "push_until3 z xs = (if length xs < 3 then push_until3 z (xs @ [z]) else xs)"
  by pat_completeness auto
termination
  by (relation "measure (\<lambda>(z, xs). 3 - length xs)") auto

text \<open>
  \<^verbatim>\<open>compareVersions(current, minimum, operator)\<close>: both arrays are padded with zeros to
  three entries, the first three are read by destructuring, and an operator other than
  the three known ones is compared as \<^verbatim>\<open>'>='\<close>.
\<close>

function compareVersions :: "nat list \<Rightarrow> nat list \<Rightarrow> string \<Rightarrow> bool" where
  "compareVersions current minimum operator =
     (let cur = push_until3 0 current; mn = push_until3 0 minimum;
          curMajor = cur ! 0; curMinor = cur ! 1; curPatch = cur ! 2;
          minMajor = mn ! 0; minMinor = mn ! 1; minPatch = mn ! 2
      in if operator = ''>='' then
           (if curMajor > minMajor then True
            else if curMajor < minMajor then False
            else if curMinor > minMinor then True
            else if curMinor < minMinor then False
            else curPatch \<ge> minPatch)
         else if operator = ''^'' then
           (if curMajor \<noteq> minMajor then curMajor > minMajor
            else if curMinor > minMinor then True
            else if curMinor < minMinor then False
            else curPatch \<ge> minPatch)
         else if operator = ''~'' then
           (if curMajor \<noteq> minMajor \<or> curMinor \<noteq> minMinor
            then curMajor > minMajor \<or> (curMajor = minMajor \<and> curMinor > minMinor)
            else curPatch \<ge> minPatch)
         else compareVersions cur mn ''>='')"
  by pat_completeness auto
termination
  by (relation "measure (\<lambda>(c, m, operator). if operator = ''>='' then 0 else 1)") auto

text \<open>
  \<^verbatim>\<open>
  private cleanVersion(version: string): string {
    if (!version) return '0.0.0';
    let cleaned = version.replace(/^v/, '');
    const parts = cleaned.split('.');
    while (parts.length < 3) { parts.push('0'); }
    return parts.slice(0, 3).join('.');
  }
  \<close>
  The argument may come from the structured hints, so it is a \<^typ>\<open>jsval\<close>: a truthy
  value that is no string has no \<^verbatim>\<open>replace\<close> method and the call throws.
\<close>

definition replace_leading_v :: "string \<Rightarrow> string" where
  "replace_leading_v s = (case s of [] \<Rightarrow> [] | c # cs \<Rightarrow> if c = CHR ''v'' then cs else s)"

definition cleanVersion :: "jsval \<Rightarrow> error + string" where
  "cleanVersion ver =
     (if \<not> truthy ver then Inr ''0.0.0''
      else case ver of
        Str s \<Rightarrow>
          (let cleaned = replace_leading_v s;
               parts = push_until3 ''0'' (split (CHR ''.'') cleaned)
           in Inr (join ''.'' (take 3 parts)))
      | _ \<Rightarrow> Inl TypeError)"

text \<open>The body of the \<^verbatim>\<open>try\<close> block of \<^verbatim>\<open>isVersionSupported\<close>.\<close>

definition isVersionSupported_try :: "jsval \<Rightarrow> string \<Rightarrow> error + bool" where
  "isVersionSupported_try currentVersion minimumVersion =
     (case cleanVersion currentVersion of
        Inl e \<Rightarrow> Inl e
      | Inr cleanCurrentVersion \<Rightarrow>
          (let cleanMinimumVersion = trim minimumVersion;
               (operator, cleanMinimumVersion) =
                 (if startsWith cleanMinimumVersion ''>=''
                    then (''>='', trim (drop 2 cleanMinimumVersion))
                  else if startsWith cleanMinimumVersion ''^''
                    then (''^'', trim (drop 1 cleanMinimumVersion))
                  else if startsWith cleanMinimumVersion ''~''
                    then (''~'', trim (drop 1 cleanMinimumVersion))
                  else if endsWith cleanMinimumVersion ''~''
                    then (''~'', trim (butlast cleanMinimumVersion))
                  else (''>='', cleanMinimumVersion));
               currentParts = parseVersion cleanCurrentVersion;
               minimumParts = parseVersion cleanMinimumVersion
           in Inr (compareVersions currentParts minimumParts operator)))"

text \<open>
  \<^verbatim>\<open>isVersionSupported\<close>: an empty minimum is supported at once; whatever the
  \<^verbatim>\<open>try\<close> block throws is caught and answered with \<^verbatim>\<open>true\<close>.
\<close>

definition isVersionSupported :: "jsval \<Rightarrow> string \<Rightarrow> bool" where
  "isVersionSupported currentVersion minimumVersion =
     (if minimumVersion = [] then True
      else case isVersionSupported_try currentVersion minimumVersion of
             Inl e \<Rightarrow> True
           | Inr b \<Rightarrow> b)"

subsection \<open>Identity extractor: platform\<close>

text \<open>
  \<^verbatim>\<open>detectPlatform(userAgent)\<close>: the desktop tokens are tested first (\<^verbatim>\<open>'Linux'\<close> is
  listed twice in the source), then the mobile tokens.
\<close>

definition detectPlatform :: "string \<Rightarrow> Platform" where
  "detectPlatform userAgent =
     (if includesStr userAgent ''Windows'' \<or>
         includesStr userAgent ''Linux'' \<or>
         includesStr userAgent ''Macintosh'' \<or>
         includesStr userAgent ''Mac OS'' \<or>
         includesStr userAgent ''Linux''
      then DESKTOP
      else if includesStr userAgent ''Mobile'' \<or>
              includesStr userAgent ''Tablet'' \<or>
              includesStr userAgent ''Android'' \<or>
              includesStr userAgent ''iPhone'' \<or>
              includesStr userAgent ''iPad''
      then MOBILE
      else UNKNOWN_PLATFORM)"

text \<open>
  The host window, as far as the service reads it: \<^verbatim>\<open>location.href\<close>,
  \<^verbatim>\<open>location.origin\<close>, \<^verbatim>\<open>navigator.userAgent\<close> and the optional
  \<^verbatim>\<open>navigator.userAgentData\<close> with its \<^verbatim>\<open>brands\<close>, \<^verbatim>\<open>platform\<close> and
  \<^verbatim>\<open>mobile\<close> members. \<open>None\<close> is an absent (\<^verbatim>\<open>undefined\<close>) member.
\<close>

record NavigatorUABrandVersion =
  brand :: jsval
  brand_version :: jsval

record NavigatorUAData =
  uad_brands :: "NavigatorUABrandVersion list option"
  uad_platform :: jsval
  uad_mobile :: jsval

record Window =
  location_href :: string
  location_origin :: string
  navigator_userAgent :: string
  navigator_userAgentData :: "NavigatorUAData option"

text \<open>\<^verbatim>\<open>x.toLowerCase()\<close> on an untyped value: only a string has the method.\<close>

definition toLowerCase_any :: "jsval \<Rightarrow> error + string" where
  "toLowerCase_any x = (case x of Str s \<Rightarrow> Inr (toLowerCase s) | _ \<Rightarrow> Inl TypeError)"

definition detectPlatformFromClientHints_try :: "Window \<Rightarrow> error + Platform option" where
  "detectPlatformFromClientHints_try w =
     (case navigator_userAgentData w of
        None \<Rightarrow> Inr None
      | Some uad \<Rightarrow>
          (case (if truthy (uad_platform uad)
                 then (case toLowerCase_any (uad_platform uad) of
                         Inl e \<Rightarrow> Inl e
                       | Inr p \<Rightarrow>
                           Inr (if includesStr p ''windows'' then Some DESKTOP
                                else if includesStr p ''macos'' \<or> includesStr p ''mac''
                                  then Some DESKTOP
                                else if includesStr p ''linux'' then Some DESKTOP
                                else if includesStr p ''android'' then Some MOBILE
                                else if includesStr p ''ios'' then Some MOBILE
                                else None))
                 else Inr None) of
             Inl e \<Rightarrow> Inl e
           | Inr (Some r) \<Rightarrow> Inr (Some r)
           | Inr None \<Rightarrow>
               (case uad_mobile uad of
                  Bool m \<Rightarrow> Inr (Some (if m then MOBILE else DESKTOP))
                | _ \<Rightarrow> Inr None)))"

definition detectPlatformFromClientHints :: "Window \<Rightarrow> Platform option" where
  "detectPlatformFromClientHints w =
     (case detectPlatformFromClientHints_try w of Inl e \<Rightarrow> None | Inr r \<Rightarrow> r)"

subsection \<open>Identity extractor: structured hints\<close>

text \<open>
  The \<^verbatim>\<open>for (const brand of brands)\<close> loop of \<^verbatim>\<open>detectBrowserFromClientHints\<close>:
  each entry is lower-cased and tested against the four names in turn; the first entry
  that passes one of the tests returns.
\<close>

fun brands_loop :: "NavigatorUABrandVersion list \<Rightarrow> error + (SupportedBrowser \<times> jsval) option"
  where
  "brands_loop [] = Inr None"
| "brands_loop (b # rest) =
     (case toLowerCase_any (brand b) of
        Inl e \<Rightarrow> Inl e
      | Inr brandName \<Rightarrow>
          (let ver = brand_version b
           in if includesStr brandName ''microsoft edge'' \<or> includesStr brandName ''edge''
                then Inr (Some (EDGE, ver))
              else if includesStr brandName ''samsung''
                then Inr (Some (SAMSUNG, ver))
              else if includesStr brandName ''chrome'' \<and> \<not> includesStr brandName ''chromium''
                then Inr (Some (CHROME, ver))
              else if includesStr brandName ''firefox''
                then Inr (Some (FIREFOX, ver))
              else brands_loop rest))"

text \<open>\<^verbatim>\<open>brands.find((b) => b.brand.toLowerCase().includes('chromium'))\<close>\<close>

fun brands_find_chromium :: "NavigatorUABrandVersion list \<Rightarrow> error + NavigatorUABrandVersion option"
  where
  "brands_find_chromium [] = Inr None"
| "brands_find_chromium (b # rest) =
     (case toLowerCase_any (brand b) of
        Inl e \<Rightarrow> Inl e
      | Inr n \<Rightarrow> if includesStr n ''chromium'' then Inr (Some b) else brands_find_chromium rest)"

definition detectBrowserFromClientHints_try :: "Window \<Rightarrow> error + (SupportedBrowser \<times> jsval) option"
  where
  "detectBrowserFromClientHints_try w =
     (case navigator_userAgentData w of
        None \<Rightarrow> Inr None
      | Some uad \<Rightarrow>
          (case uad_brands uad of
             None \<Rightarrow> Inr None
           | Some brands \<Rightarrow>
               (case brands_loop brands of
                  Inl e \<Rightarrow> Inl e
                | Inr (Some r) \<Rightarrow> Inr (Some r)
                | Inr None \<Rightarrow>
                    (case brands_find_chromium brands of
                       Inl e \<Rightarrow> Inl e
                     | Inr (Some chromiumBrand) \<Rightarrow> Inr (Some (UNKNOWN, brand_version chromiumBrand))
                     | Inr None \<Rightarrow> Inr None))))"

definition detectBrowserFromClientHints :: "Window \<Rightarrow> (SupportedBrowser \<times> jsval) option" where
  "detectBrowserFromClientHints w =
     (case detectBrowserFromClientHints_try w of Inl e \<Rightarrow> None | Inr r \<Rightarrow> r)"

subsection \<open>Identity extractor: user-agent heuristics\<close>

text \<open>
  Every version pattern of the source is a literal followed by one capture group of
  dot-separated digit runs: \<^verbatim>\<open>/Line\/(\d+\.\d+\.\d+)/\<close> is the literal \<^verbatim>\<open>Line/\<close>
  and three runs, \<^verbatim>\<open>/Version\/(\d+\.\d+)/\<close> the literal \<^verbatim>\<open>Version/\<close> and two.
  A greedy \<^verbatim>\<open>\d+\<close> takes the whole run of digits, and giving some back never helps
  since the next pattern character is no digit; so the match at a position is unique.
  \<^verbatim>\<open>userAgent.match(re)\<close> takes the leftmost position with a match; the result here is
  the text of capture group 1, \<open>None\<close> for \<^verbatim>\<open>null\<close>.
\<close>

record version_regex =
  rx_literal :: string
  rx_runs :: nat

fun digit_runs :: "nat \<Rightarrow> string \<Rightarrow> string option" where
  "digit_runs 0 s = None"
| "digit_runs (Suc n) s =
     (let ds = takeWhile is_digit s; rest = dropWhile is_digit s
      in if ds = [] then None
         else if n = 0 then Some ds
         else (case rest of
                 [] \<Rightarrow> None
               | c # r \<Rightarrow>
                   if c = CHR ''.''
                   then (case digit_runs n r of None \<Rightarrow> None | Some m \<Rightarrow> Some (ds @ ''.'' @ m))
                   else None))"

definition match_at :: "version_regex \<Rightarrow> string \<Rightarrow> string option" where
  "match_at rx s =
     (if startsWith s (rx_literal rx) then digit_runs (rx_runs rx) (drop (length (rx_literal rx)) s)
      else None)"

fun match :: "string \<Rightarrow> version_regex \<Rightarrow> string option" where
  "match [] rx = match_at rx []"
| "match (c # cs) rx = (case match_at rx (c # cs) of Some m \<Rightarrow> Some m | None \<Rightarrow> match cs rx)"

text \<open>
  The entries of \<^verbatim>\<open>supportedBrowserDetectors\<close>. In the source \<^verbatim>\<open>condition\<close> is a
  closure over \<^verbatim>\<open>userAgent\<close>; here it takes the user agent as its argument.
\<close>

record detector =
  condition :: "string \<Rightarrow> bool"
  browser :: SupportedBrowser
  versionRegex :: version_regex
  customVersionProcessor :: "(string option \<Rightarrow> string) option"

definition append_zero :: "string option \<Rightarrow> string" where
  "append_zero m = (case m of Some m1 \<Rightarrow> m1 @ ''.0'' | None \<Rightarrow> ''0.0.0'')"

definition supportedBrowserDetectors :: "detector list" where
  "supportedBrowserDetectors =
    [\<lparr>condition = (\<lambda>userAgent.
         (includesStr userAgent ''Chrome'' \<or> includesStr userAgent ''Safari'') \<and>
         \<not> includesStr userAgent ''Edg'' \<and>
         \<not> includesStr userAgent ''OPR'' \<and>
         \<not> includesStr userAgent ''SamsungBrowser'' \<and>
         \<not> includesStr userAgent ''Brave'' \<and>
         includesStr userAgent ''Line''),
       browser = LINE,
       versionRegex = \<lparr>rx_literal = ''Line/'', rx_runs = 3\<rparr>,
       customVersionProcessor = None\<rparr>,
     \<lparr>condition = (\<lambda>userAgent.
         includesStr userAgent ''Safari'' \<and> \<not> includesStr userAgent ''Chrome''),
       browser = SAFARI,
       versionRegex = \<lparr>rx_literal = ''Version/'', rx_runs = 2\<rparr>,
       customVersionProcessor = Some append_zero\<rparr>,
     \<lparr>condition = (\<lambda>userAgent.
         includesStr userAgent ''Chrome'' \<and>
         \<not> includesStr userAgent ''Edg'' \<and>
         \<not> includesStr userAgent ''OPR'' \<and>
         \<not> includesStr userAgent ''SamsungBrowser'' \<and>
         \<not> includesStr userAgent ''Brave''),
       browser = CHROME,
       versionRegex = \<lparr>rx_literal = ''Chrome/'', rx_runs = 3\<rparr>,
       customVersionProcessor = None\<rparr>,
     \<lparr>condition = (\<lambda>userAgent. includesStr userAgent ''Edg/''),
       browser = EDGE,
       versionRegex = \<lparr>rx_literal = ''Edg/'', rx_runs = 3\<rparr>,
       customVersionProcessor = None\<rparr>,
     \<lparr>condition = (\<lambda>userAgent. includesStr userAgent ''Firefox''),
       browser = FIREFOX,
       versionRegex = \<lparr>rx_literal = ''Firefox/'', rx_runs = 2\<rparr>,
       customVersionProcessor = Some append_zero\<rparr>,
     \<lparr>condition = (\<lambda>userAgent. includesStr userAgent ''SamsungBrowser''),
       browser = SAMSUNG,
       versionRegex = \<lparr>rx_literal = ''SamsungBrowser/'', rx_runs = 2\<rparr>,
       customVersionProcessor = Some append_zero\<rparr>]"

text \<open>
  The \<^verbatim>\<open>for (const detector of supportedBrowserDetectors)\<close> loop: the first detector
  whose condition holds returns, with the version its pattern finds or \<^verbatim>\<open>'0.0.0'\<close>.
\<close>

fun detectors_loop :: "detector list \<Rightarrow> string \<Rightarrow> (SupportedBrowser \<times> string) option" where
  "detectors_loop [] userAgent = None"
| "detectors_loop (d # ds) userAgent =
     (if condition d userAgent
      then (let m = match userAgent (versionRegex d);
                ver = (case customVersionProcessor d of
                         Some f \<Rightarrow> f m
                       | None \<Rightarrow> (case m of Some m1 \<Rightarrow> m1 | None \<Rightarrow> ''0.0.0''))
            in Some (browser d, ver))
      else detectors_loop ds userAgent)"

definition detectBrowser :: "string \<Rightarrow> SupportedBrowser \<times> string" where
  "detectBrowser userAgent =
     (case detectors_loop supportedBrowserDetectors userAgent of
        Some r \<Rightarrow> r
      | None \<Rightarrow> (UNKNOWN, ''0.0.0''))"

text \<open>
  \<^verbatim>\<open>parseUserAgent\<close> returns \<^verbatim>\<open>{ name, version, platform }\<close>, here a triple. The
  structured hints are tried first; the platform hint falls back to the string heuristic.
\<close>

definition parseUserAgent :: "Window \<Rightarrow> string \<Rightarrow> SupportedBrowser \<times> jsval \<times> Platform" where
  "parseUserAgent w userAgent =
     (case detectBrowserFromClientHints w of
        Some (clientHintsName, clientHintsVersion) \<Rightarrow>
          (let plat = (case detectPlatformFromClientHints w of
                         Some p \<Rightarrow> p
                       | None \<Rightarrow> detectPlatform userAgent)
           in (clientHintsName, clientHintsVersion, plat))
      | None \<Rightarrow>
          (let plat = detectPlatform userAgent;
               (browserName, browserVersion) = detectBrowser userAgent
           in (browserName, Str browserVersion, plat)))"

subsection \<open>Compatibility evaluator\<close>

record supportedVersions =
  chrome :: string
  firefox :: string
  safari :: string
  edge :: string
  samsung :: string

record BrowserCompatibilityConfig =
  enabled :: bool
  supportedVersions :: supportedVersions

record BrowserInfo =
  name :: SupportedBrowser
  version :: jsval
  platform :: Platform
  isSupported :: bool
  minimumVersion :: "string option"
  userAgent :: string

fun getMinimumVersion :: "BrowserCompatibilityConfig \<Rightarrow> SupportedBrowser \<Rightarrow> string option" where
  "getMinimumVersion config CHROME = Some (chrome (supportedVersions config))"
| "getMinimumVersion config FIREFOX = Some (firefox (supportedVersions config))"
| "getMinimumVersion config SAFARI = Some (safari (supportedVersions config))"
| "getMinimumVersion config EDGE = Some (edge (supportedVersions config))"
| "getMinimumVersion config SAMSUNG = Some (samsung (supportedVersions config))"
| "getMinimumVersion config _ = None"

definition getBrowserCompatibilityInfo :: "BrowserCompatibilityConfig \<Rightarrow> Window \<Rightarrow> BrowserInfo" where
  "getBrowserCompatibilityInfo config w =
     (let ua = navigator_userAgent w;
          (browserName, browserVersion, browserPlatform) = parseUserAgent w ua;
          minVersion = getMinimumVersion config browserName;
          supported = (case minVersion of
                         Some mv \<Rightarrow> isVersionSupported browserVersion mv
                       | None \<Rightarrow> False)
      in \<lparr>name = browserName,
          version = browserVersion,
          platform = browserPlatform,
          isSupported = supported,
          minimumVersion = minVersion,
          userAgent = ua\<rparr>)"

subsection \<open>The host's URL objects\<close>

text \<open>
  \<^verbatim>\<open>URL\<close> and \<^verbatim>\<open>URLSearchParams\<close> belong to the host, not to the service. They are
  modelled for the texts the service hands them: \<^verbatim>\<open>location.href\<close>, a serialised
  absolute URL, and \<^verbatim>\<open>location.origin\<close>, which is \<^verbatim>\<open>scheme://host[:port]\<close> for a page
  with a tuple origin (http, https) and the text \<^verbatim>\<open>null\<close> for a page with an opaque
  origin. A serialised URL parses into what precedes the first \<^verbatim>\<open>?\<close> or \<^verbatim>\<open>#\<close> (scheme,
  authority and path, kept as one text), the query and the fragment.
  Names and values of query parameters are kept as their percent-decoded bytes; the host
  decodes them as UTF-8, which is the same for ASCII names and values.
\<close>

record url =
  u_base :: string
  u_query :: "string option"
  u_fragment :: "string option"

definition break_at :: "char \<Rightarrow> string \<Rightarrow> string \<times> string option" where
  "break_at c s =
     (takeWhile (\<lambda>x. x \<noteq> c) s,
      case dropWhile (\<lambda>x. x \<noteq> c) s of [] \<Rightarrow> None | _ # r \<Rightarrow> Some r)"

text \<open>\<^verbatim>\<open>new URL(s)\<close> for a serialised absolute URL.\<close>

definition URL :: "string \<Rightarrow> url" where
  "URL s =
     (let (s1, frag) = break_at (CHR ''#'') s;
          (b, q) = break_at (CHR ''?'') s1
      in \<lparr>u_base = b, u_query = q, u_fragment = frag\<rparr>)"

text \<open>
  A text parses as a URL on its own only if it starts with a scheme: a letter, then
  letters, digits, \<^verbatim>\<open>+\<close>, \<^verbatim>\<open>-\<close> or \<^verbatim>\<open>.\<close>, then a colon. The text \<^verbatim>\<open>null\<close> has none.
\<close>

definition is_alpha :: "char \<Rightarrow> bool" where
  "is_alpha c = ((65 \<le> code c \<and> code c \<le> 90) \<or> (97 \<le> code c \<and> code c \<le> 122))"

definition scheme_char :: "char \<Rightarrow> bool" where
  "scheme_char c = (is_alpha c \<or> is_digit c \<or> c \<in> set ''+-.'')"

definition has_scheme :: "string \<Rightarrow> bool" where
  "has_scheme s =
     (case s of
        [] \<Rightarrow> False
      | c # cs \<Rightarrow>
          is_alpha c \<and>
          (case dropWhile scheme_char cs of [] \<Rightarrow> False | d # _ \<Rightarrow> d = CHR '':''))"

text \<open>
  \<^verbatim>\<open>new URL(input, base)\<close> with \<^verbatim>\<open>location.origin\<close> as base. The base is parsed first,
  whatever the input is, and the constructor throws a \<^verbatim>\<open>TypeError\<close> when it does not
  parse, as for the \<^verbatim>\<open>null\<close> of an opaque origin. With an origin as base, an input that
  starts with \<^verbatim>\<open>/\<close> is a path under that origin, and any other input here is an
  absolute URL.
\<close>

definition URL_with_base :: "string \<Rightarrow> string \<Rightarrow> error + url" where
  "URL_with_base input b =
     (if \<not> has_scheme b then Inl TypeError
      else if startsWith input ''/''
      then (let u = URL input in Inr (u\<lparr>u_base := b @ u_base u\<rparr>))
      else Inr (URL input))"

definition url_toString :: "url \<Rightarrow> string" where
  "url_toString u =
     u_base u
     @ (case u_query u of None \<Rightarrow> [] | Some q \<Rightarrow> CHR ''?'' # q)
     @ (case u_fragment u of None \<Rightarrow> [] | Some f \<Rightarrow> CHR ''#'' # f)"

text \<open>The \<^verbatim>\<open>search\<close> getter: empty for an absent or empty query.\<close>

definition url_search :: "url \<Rightarrow> string" where
  "url_search u = (case u_query u of None \<Rightarrow> [] | Some q \<Rightarrow> if q = [] then [] else CHR ''?'' # q)"

text \<open>
  The \<^verbatim>\<open>search\<close> setter: the empty text removes the query, otherwise one leading
  \<^verbatim>\<open>?\<close> is dropped. The value the service passes comes from the getter of a parsed URL,
  so it holds nothing the setter would still encode.
\<close>

definition url_set_search :: "url \<Rightarrow> string \<Rightarrow> url" where
  "url_set_search u v =
     (if v = [] then u\<lparr>u_query := None\<rparr>
      else u\<lparr>u_query := Some (if startsWith v ''?'' then drop 1 v else v)\<rparr>)"

definition is_hex :: "char \<Rightarrow> bool" where
  "is_hex c = (is_digit c \<or> (65 \<le> code c \<and> code c \<le> 70) \<or> (97 \<le> code c \<and> code c \<le> 102))"

definition hex_val :: "char \<Rightarrow> nat" where
  "hex_val c = (if is_digit c then code c - 48 else if code c \<le> 70 then code c - 55 else code c - 87)"

fun percent_decode :: "string \<Rightarrow> string" where
  "percent_decode (c # h1 # h2 # rest) =
     (if c = CHR ''%'' \<and> is_hex h1 \<and> is_hex h2
      then char_of (16 * hex_val h1 + hex_val h2) # percent_decode rest
      else c # percent_decode (h1 # h2 # rest))"
| "percent_decode s = s"

definition plus_to_space :: "string \<Rightarrow> string" where
  "plus_to_space s = map (\<lambda>c. if c = CHR ''+'' then CHR '' '' else c) s"

text \<open>The \<^verbatim>\<open>application/x-www-form-urlencoded\<close> parser behind \<^verbatim>\<open>searchParams\<close>.\<close>

definition urlencoded_parse :: "string \<Rightarrow> (string \<times> string) list" where
  "urlencoded_parse q =
     map (\<lambda>bytes.
            (let (n, v) = break_at (CHR ''='') bytes;
                 v = (case v of None \<Rightarrow> [] | Some x \<Rightarrow> x)
             in (percent_decode (plus_to_space n), percent_decode (plus_to_space v))))
       (filter (\<lambda>bytes. bytes \<noteq> []) (split (CHR ''&'') q))"

definition searchParams :: "url \<Rightarrow> (string \<times> string) list" where
  "searchParams u = (case u_query u of None \<Rightarrow> [] | Some q \<Rightarrow> urlencoded_parse q)"

definition has :: "(string \<times> string) list \<Rightarrow> string \<Rightarrow> bool" where
  "has params n = list_ex (\<lambda>p. fst p = n) params"

text \<open>
  \<^verbatim>\<open>searchParams.set(n, v)\<close>: the first pair named \<open>n\<close> gets the value and the other pairs
  of that name go; without such a pair, the new pair is appended.
\<close>

fun params_set :: "(string \<times> string) list \<Rightarrow> string \<Rightarrow> string \<Rightarrow> (string \<times> string) list" where
  "params_set [] n v = [(n, v)]"
| "params_set (p # ps) n v =
     (if fst p = n then (n, v) # filter (\<lambda>p. fst p \<noteq> n) ps else p # params_set ps n v)"

definition hex_digit :: "nat \<Rightarrow> char" where
  "hex_digit n = (if n < 10 then char_of (48 + n) else char_of (55 + n))"

definition is_alnum :: "char \<Rightarrow> bool" where
  "is_alnum c = (is_digit c \<or> (65 \<le> code c \<and> code c \<le> 90) \<or> (97 \<le> code c \<and> code c \<le> 122))"

definition urlencoded_byte :: "char \<Rightarrow> string" where
  "urlencoded_byte c =
     (if c = CHR '' '' then ''+''
      else if is_alnum c \<or> c \<in> set ''*-._'' then [c]
      else [CHR ''%'', hex_digit (code c div 16), hex_digit (code c mod 16)])"

definition urlencoded_serialize :: "(string \<times> string) list \<Rightarrow> string" where
  "urlencoded_serialize params =
     join ''&'' (map (\<lambda>(n, v). concat (map urlencoded_byte n) @ ''='' @ concat (map urlencoded_byte v))
                   params)"

text \<open>A change of \<^verbatim>\<open>searchParams\<close> writes the serialised list back as the URL's query.\<close>

definition url_searchParams_set :: "url \<Rightarrow> string \<Rightarrow> string \<Rightarrow> url" where
  "url_searchParams_set u n v =
     (let serializedQuery = urlencoded_serialize (params_set (searchParams u) n v)
      in u\<lparr>u_query := (if serializedQuery = [] then None else Some serializedQuery)\<rparr>)"

text \<open>
  \<^verbatim>\<open>s.search(t)\<close> for a text \<open>t\<close> without regular-expression operators: the index of
  the first occurrence, or \<open>-1\<close>.
\<close>

fun search_from :: "nat \<Rightarrow> string \<Rightarrow> string \<Rightarrow> int" where
  "search_from i [] t = (if t = [] then int i else -1)"
| "search_from i (c # cs) t = (if startsWith (c # cs) t then int i else search_from (Suc i) cs t)"

definition search :: "string \<Rightarrow> string \<Rightarrow> int" where
  "search s t = search_from 0 s t"

subsection \<open>Navigation policy\<close>

text \<open>
  The two ways the service navigates: \<^verbatim>\<open>location.replace(u)\<close> and the assignment
  \<^verbatim>\<open>location.href = u\<close>. A pass of the service yields the requests it made, in order.
  Nothing in the service catches what \<^verbatim>\<open>new URL\<close> throws: \<open>Inl\<close> is a pass that ends
  with that exception. Every navigation is the last step of its path, so a pass that
  throws has requested none.
\<close>

datatype navigation = Replace string | Assign string

definition showIncompatibleBrowserError :: "Window \<Rightarrow> BrowserInfo \<Rightarrow> error + navigation list"
  where
  "showIncompatibleBrowserError w browserInfo =
     (let currentUrl = URL (location_href w)
      in case URL_with_base ''/browser-error'' (location_origin w) of
           Inl e \<Rightarrow> Inl e
         | Inr errorUrl \<Rightarrow>
             (let errorUrl = url_set_search errorUrl (url_search currentUrl)
              in Inr [Assign (url_toString errorUrl)]))"

definition showIncompatibleBrowserVersionError ::
  "Window \<Rightarrow> BrowserInfo \<Rightarrow> error + navigation list" where
  "showIncompatibleBrowserVersionError w browserInfo =
     (let currentUrl = URL (location_href w)
      in case URL_with_base ''/browser-error'' (location_origin w) of
           Inl e \<Rightarrow> Inl e
         | Inr errorUrl \<Rightarrow>
             (let errorUrl = url_set_search errorUrl (url_search currentUrl)
              in Inr [Assign (url_toString errorUrl)]))"

definition checkBrowserCompatibility ::
  "BrowserCompatibilityConfig \<Rightarrow> Window \<Rightarrow> error + navigation list" where
  "checkBrowserCompatibility config w =
     (if has (searchParams (URL (location_href w))) ''openExternalBrowser'' then Inr []
      else if \<not> enabled config then Inr []
      else (let browserInfo = getBrowserCompatibilityInfo config w
            in if name browserInfo = LINE \<and> search (location_href w) ''openExternalBrowser'' < 0
               then (let url = location_href w
                     in case URL_with_base url (location_origin w) of
                          Inl e \<Rightarrow> Inl e
                        | Inr targetUrl \<Rightarrow>
                            (let targetUrl =
                                   url_searchParams_set targetUrl ''openExternalBrowser'' ''1''
                             in Inr [Replace (url_toString targetUrl)]))
               else if \<not> isSupported browserInfo
               then (if minimumVersion browserInfo = None
                     then showIncompatibleBrowserError w browserInfo
                     else showIncompatibleBrowserVersionError w browserInfo)
               else Inr []))"

subsection \<open>Vocabulary of the properties\<close>

text \<open>
  The four tests of the brand loop, as predicates on a brand name: they are the
  conditions of the loop's \<^verbatim>\<open>if\<close> chain, applied to the lower-cased name.
\<close>

definition edge_like :: "string \<Rightarrow> bool" where
  "edge_like s =
     (includesStr (toLowerCase s) ''microsoft edge'' \<or> includesStr (toLowerCase s) ''edge'')"

definition samsung_like :: "string \<Rightarrow> bool" where
  "samsung_like s = includesStr (toLowerCase s) ''samsung''"

definition chrome_like :: "string \<Rightarrow> bool" where
  "chrome_like s =
     (includesStr (toLowerCase s) ''chrome'' \<and> \<not> includesStr (toLowerCase s) ''chromium'')"

definition firefox_like :: "string \<Rightarrow> bool" where
  "firefox_like s = includesStr (toLowerCase s) ''firefox''"

text \<open>
  A version text whose components are all below \<open>2 ^ 53\<close>: the decimal value of the
  digits of each of its fragments is a number the host represents exactly.
\<close>

definition exact_version :: "string \<Rightarrow> bool" where
  "exact_version v =
     list_all (\<lambda>f. (case parseInt (filter is_digit f) of None \<Rightarrow> 0 | Some num \<Rightarrow> num) < 2 ^ 53)
       (split (CHR ''.'') v)"

text \<open>A text of ASCII characters only.\<close>

definition ascii :: "string \<Rightarrow> bool" where
  "ascii s = list_all (\<lambda>c. code c < 128) s"

subsection \<open>Sample environments\<close>

text \<open>Concrete inputs for the instances below.\<close>

definition sample_config :: BrowserCompatibilityConfig where
  "sample_config =
     \<lparr>enabled = True,
      supportedVersions =
        \<lparr>chrome = ''>=90.0.0'', firefox = ''>=88.0.0'', safari = ''>=14.0.0'',
         edge = ''>=90.0.0'', samsung = ''>=14.0.0''\<rparr>\<rparr>"

definition line_userAgent :: string where
  "line_userAgent =
     ''Mozilla/5.0 (Linux; Android 11; Pixel 5) AppleWebKit/537.36 (KHTML, like Gecko) Chrome/96.0.4664.45 Mobile Safari/537.36 Line/12.5.0''"

definition line_userAgent_no_version :: string where
  "line_userAgent_no_version =
     ''Mozilla/5.0 (Linux; Android 11; Pixel 5) AppleWebKit/537.36 (KHTML, like Gecko) Chrome/96.0.4664.45 Mobile Safari/537.36 Line''"

definition android_userAgent :: string where
  "android_userAgent =
     ''Mozilla/5.0 (Linux; Android 11; Pixel 5) AppleWebKit/537.36 (KHTML, like Gecko) Chrome/96.0.4664.45 Mobile Safari/537.36''"

definition old_chrome_userAgent :: string where
  "old_chrome_userAgent =
     ''Mozilla/5.0 (Windows NT 10.0; Win64; x64) AppleWebKit/537.36 (KHTML, like Gecko) Chrome/85.0.0.0 Safari/537.36''"

definition sample_window :: "string \<Rightarrow> string \<Rightarrow> Window" where
  "sample_window h ua =
     \<lparr>location_href = h, location_origin = ''https://example.com'',
      navigator_userAgent = ua, navigator_userAgentData = None\<rparr>"


definition brand_entry :: "string \<Rightarrow> string \<Rightarrow> NavigatorUABrandVersion" where
  "brand_entry n v = \<lparr>brand = Str n, brand_version = Str v\<rparr>"

definition sample_uad :: "NavigatorUABrandVersion list \<Rightarrow> NavigatorUAData" where
  "sample_uad bs = \<lparr>uad_brands = Some bs, uad_platform = Str ''Windows'', uad_mobile = Bool False\<rparr>"

definition brands_window :: "NavigatorUABrandVersion list \<Rightarrow> Window" where
  "brands_window bs =
     \<lparr>location_href = ''https://example.com/app'', location_origin = ''https://example.com'',
      navigator_userAgent = old_chrome_userAgent,
      navigator_userAgentData = Some (sample_uad bs)\<rparr>"

section \<open>Properties\<close>

declare push_until3.simps [simp del]
declare compareVersions.simps [simp del]

subsection \<open>Version comparator\<close>

lemma length_split: "length (split c s) = Suc (length (filter (\<lambda>x. x = c) s))"
  by (induction s) (auto split: list.splits)

lemma push_until3_eq: "push_until3 z xs = xs @ replicate (3 - length xs) z"
proof (induction z xs rule: push_until3.induct)
  case (1 z xs)
  show ?case
  proof (cases "length xs < 3")
    case True
    with 1 have "push_until3 z xs = (xs @ [z]) @ replicate (3 - length (xs @ [z])) z"
      by (simp add: push_until3.simps [of z xs])
    also have "\<dots> = xs @ replicate (Suc (3 - length (xs @ [z]))) z"
      by simp
    also from True have "Suc (3 - length (xs @ [z])) = 3 - length xs"
      by simp
    finally show ?thesis .
  next
    case False
    then show ?thesis by (simp add: push_until3.simps [of z xs])
  qed
qed

lemma list_shape3:
  "xs = [] \<or> (\<exists>a. xs = [a]) \<or> (\<exists>a b. xs = [a, b]) \<or> (\<exists>a b c r. xs = a # b # c # r)"
  by (metis list.exhaust)

lemma push_until3_shapes:
  "push_until3 z [] = [z, z, z]" "push_until3 z [a] = [a, z, z]" "push_until3 z [a, b] = [a, b, z]"
  "push_until3 z (a # b # c # r) = a # b # c # r"
  by (simp_all add: push_until3_eq eval_nat_numeral)

lemma push_until3_idem: "push_until3 z (push_until3 z xs) = push_until3 z xs"
  using list_shape3 [of xs] by (elim disjE exE) (simp_all add: push_until3_shapes)

lemma push_until3_take3:
  "take 3 (push_until3 (0::nat) (take 3 (xs @ [0, 0, 0]))) = take 3 (push_until3 0 xs)"
  using list_shape3 [of xs] by (elim disjE exE) (simp_all add: push_until3_shapes)

lemmas compareVersions_ops =
  compareVersions.simps [of _ _ "''>=''"] compareVersions.simps [of _ _ "''^''"]
  compareVersions.simps [of _ _ "''~''"]

text \<open>The comparison reads the first three entries of the padded arrays only.\<close>

lemma compareVersions_known:
  assumes "take 3 (push_until3 0 cur) = take 3 (push_until3 0 cur')"
    and "take 3 (push_until3 0 mn) = take 3 (push_until3 0 mn')"
    and "operator = ''>='' \<or> operator = ''^'' \<or> operator = ''~''"
  shows "compareVersions cur mn operator = compareVersions cur' mn' operator"
proof -
  have c: "push_until3 0 cur ! i = push_until3 0 cur' ! i" if "i < 3" for i
  proof -
    have "take 3 (push_until3 0 cur) ! i = take 3 (push_until3 0 cur') ! i"
      by (simp only: assms(1))
    with that show ?thesis by simp
  qed
  have m: "push_until3 0 mn ! i = push_until3 0 mn' ! i" if "i < 3" for i
  proof -
    have "take 3 (push_until3 0 mn) ! i = take 3 (push_until3 0 mn') ! i"
      by (simp only: assms(2))
    with that show ?thesis by simp
  qed
  have eqs: "push_until3 0 cur ! 0 = push_until3 0 cur' ! 0"
    "push_until3 0 cur ! Suc 0 = push_until3 0 cur' ! Suc 0"
    "push_until3 0 cur ! 2 = push_until3 0 cur' ! 2"
    "push_until3 0 mn ! 0 = push_until3 0 mn' ! 0"
    "push_until3 0 mn ! Suc 0 = push_until3 0 mn' ! Suc 0"
    "push_until3 0 mn ! 2 = push_until3 0 mn' ! 2"
    using c [of 0] c [of "Suc 0"] c [of 2] m [of 0] m [of "Suc 0"] m [of 2] by simp_all
  from assms(3) show ?thesis
    by (elim disjE) (simp_all add: compareVersions_ops Let_def eqs)
qed

lemma compareVersions_reads_three:
  assumes "take 3 (push_until3 0 cur) = take 3 (push_until3 0 cur')"
    and "take 3 (push_until3 0 mn) = take 3 (push_until3 0 mn')"
  shows "compareVersions cur mn operator = compareVersions cur' mn' operator"
proof (cases "operator = ''>='' \<or> operator = ''^'' \<or> operator = ''~''")
  case True
  with assms show ?thesis by (rule compareVersions_known)
next
  case False
  then have "compareVersions cur mn operator =
      compareVersions (push_until3 0 cur) (push_until3 0 mn) ''>=''"
    by (subst compareVersions.simps) (simp add: Let_def)
  also have "\<dots> = compareVersions (push_until3 0 cur') (push_until3 0 mn') ''>=''"
    by (rule compareVersions_known) (simp_all add: push_until3_idem assms)
  also from False have "\<dots> = compareVersions cur' mn' operator"
    by (subst (2) compareVersions.simps) (simp add: Let_def)
  finally show ?thesis .
qed

lemma compareVersions_pad:
  "compareVersions cur mn operator =
     compareVersions (take 3 (cur @ [0, 0, 0])) (take 3 (mn @ [0, 0, 0])) operator"
  by (rule compareVersions_reads_three) (simp_all only: push_until3_take3)

lemma exact_version_components:
  "exact_version v \<Longrightarrow> i < length (parseVersion v) \<Longrightarrow> parseVersion v ! i < 2 ^ 53"
  by (simp add: exact_version_def parseVersion_def list_all_length)

text \<open>
  C7, as amended. For a version text whose components are all below \<open>2 ^ 53\<close>,
  \<^verbatim>\<open>parseVersion\<close> returns one natural number for each fragment between the dots of
  its argument, so one more than the argument has dots and not always three: the value
  of the fragment's digits once every other character is stripped, and 0 when no digit
  is left. It neither pads nor truncates. Padding with zeros to three entries and
  reading the first three only is done by \<^verbatim>\<open>compareVersions\<close>, for which a parsed
  version counts as its first three entries, zeros added.
\<close>

theorem parseVersion_components:
  assumes "exact_version v" and "exact_version m"
  shows "length (parseVersion v) = Suc (length (filter (\<lambda>c. c = CHR ''.'') v)) \<and>
   (\<forall>i < length (parseVersion v).
      parseVersion v ! i < 2 ^ 53 \<and>
      parseVersion v ! i =
        (case parseInt (filter is_digit (split (CHR ''.'') v ! i)) of
           None \<Rightarrow> 0
         | Some num \<Rightarrow> num)) \<and>
   compareVersions (parseVersion v) (parseVersion m) operator =
     compareVersions (take 3 (parseVersion v @ [0, 0, 0])) (take 3 (parseVersion m @ [0, 0, 0]))
       operator"
proof (intro conjI)
  show "length (parseVersion v) = Suc (length (filter (\<lambda>c. c = CHR ''.'') v))"
    by (simp add: parseVersion_def length_split)
  show "\<forall>i < length (parseVersion v).
      parseVersion v ! i < 2 ^ 53 \<and>
      parseVersion v ! i =
        (case parseInt (filter is_digit (split (CHR ''.'') v ! i)) of
           None \<Rightarrow> 0
         | Some num \<Rightarrow> num)"
  proof (intro allI impI conjI)
    fix i
    assume i: "i < length (parseVersion v)"
    with assms(1) show "parseVersion v ! i < 2 ^ 53"
      by (rule exact_version_components)
    from i show "parseVersion v ! i =
        (case parseInt (filter is_digit (split (CHR ''.'') v ! i)) of
           None \<Rightarrow> 0
         | Some num \<Rightarrow> num)"
      by (simp add: parseVersion_def)
  qed
  show "compareVersions (parseVersion v) (parseVersion m) operator =
     compareVersions (take 3 (parseVersion v @ [0, 0, 0])) (take 3 (parseVersion m @ [0, 0, 0]))
       operator"
    by (rule compareVersions_pad)
qed

text \<open>
  C7, instances: \<^verbatim>\<open>'1.2.3.4'\<close> has four components and \<^verbatim>\<open>'v1a2.x.'\<close> parses to
  12, 0, 0; the one-component \<^verbatim>\<open>'90'\<close> is compared as 90.0.0.
\<close>

theorem parseVersion_components_witness:
  "exact_version ''1.2.3.4'' \<and> exact_version ''v1a2.x.'' \<and> exact_version ''90'' \<and>
   exact_version ''90.0.1'' \<and>
   length (parseVersion ''1.2.3.4'') = 4 \<and>
   (0::nat) < length (parseVersion ''v1a2.x.'') \<and> parseVersion ''v1a2.x.'' ! 0 = 12 \<and>
   compareVersions (parseVersion ''90'') (parseVersion ''90.0.1'') ''>='' =
     compareVersions [90, 0, 0] [90, 0, 1] ''>=''"
proof -
  have e: "exact_version ''1.2.3.4''" "exact_version ''v1a2.x.''" "exact_version ''90''"
    "exact_version ''90.0.1''"
    by (simp_all add: exact_version_def parseInt_def is_digit_def digit_val_def code_def)
  have a: "parseVersion ''90'' = [90]" "parseVersion ''90.0.1'' = [90, 0, 1]"
    "(0::nat) < length (parseVersion ''v1a2.x.'')"
    "(case parseInt (filter is_digit (split (CHR ''.'') ''v1a2.x.'' ! 0)) of
        None \<Rightarrow> 0 | Some num \<Rightarrow> num) = 12"
    by code_simp+
  from parseVersion_components [OF e(1) e(3), of "''>=''"]
    parseVersion_components [OF e(2) e(3), of "''>=''"]
    parseVersion_components [OF e(3) e(4), of "''>=''"] a e
  show ?thesis by simp
qed

text \<open>
  C7 as stated fails: \<^verbatim>\<open>parseVersion('90')\<close> has one component and
  \<^verbatim>\<open>parseVersion('1.2.3.4')\<close> has four, neither padded nor truncated to three.
\<close>

theorem parseVersion_counterexample:
  "parseVersion ''90'' = [90] \<and> parseVersion ''1.2.3.4'' = [1, 2, 3, 4]"
  by code_simp

text \<open>
  With a version that is a string the \<^verbatim>\<open>try\<close> block never throws; it can throw only
  for a truthy version hint of another type.
\<close>

lemma isVersionSupported_try_string: "\<exists>b. isVersionSupported_try (Str s) mn = Inr b"
  by (simp add: isVersionSupported_try_def cleanVersion_def Let_def split: prod.splits)

text \<open>
  C5. Whenever the \<^verbatim>\<open>try\<close> block of \<^verbatim>\<open>isVersionSupported\<close> throws, at whichever
  step, the error does not leave the function and the answer is \<^verbatim>\<open>true\<close>: the
  client counts as supported.
\<close>

theorem isVersionSupported_fail_open:
  "isVersionSupported_try cur mn = Inl e \<Longrightarrow> isVersionSupported cur mn = True"
  by (simp add: isVersionSupported_def)

text \<open>
  C5, an instance: a version hint that is the number 85 has no \<^verbatim>\<open>replace\<close> method, so
  cleaning throws, and the comparison with \<^verbatim>\<open>>=90.0.0\<close> answers \<^verbatim>\<open>true\<close>.
\<close>

theorem isVersionSupported_fail_open_witness:
  "isVersionSupported_try (Num 85) ''>=90.0.0'' = Inl TypeError \<and>
   isVersionSupported (Num 85) ''>=90.0.0'' = True"
proof -
  have h: "isVersionSupported_try (Num 85) ''>=90.0.0'' = Inl TypeError"
    by (simp add: isVersionSupported_try_def cleanVersion_def)
  show ?thesis
    using h isVersionSupported_fail_open [OF h] by simp
qed

text \<open>
  C8. Under the caret operator a smaller major version is never supported, a larger
  major version always is, whatever minor and patch are, and with equal major versions
  the answer is the lexicographic comparison of (minor, patch).
\<close>

theorem caret_semantics:
  "(a < x \<longrightarrow> compareVersions [a, b, c] [x, y, z] ''^'' = False) \<and>
   (a > x \<longrightarrow> compareVersions [a, b, c] [x, y, z] ''^'' = True) \<and>
   (a = x \<longrightarrow> compareVersions [a, b, c] [x, y, z] ''^'' = (b > y \<or> (b = y \<and> c \<ge> z)))"
  by (auto simp add: compareVersions_ops push_until3_shapes Let_def)

text \<open>C8, instances: 89.9.9 and 91.0.0 against ^90, and 90.1.0 and 90.0.4 against ^90.0.5.\<close>

theorem caret_semantics_witness:
  "(89::nat) < 90 \<and> compareVersions [89, 9, 9] [90, 0, 0] ''^'' = False \<and>
   (91::nat) > 90 \<and> compareVersions [91, 0, 0] [90, 5, 5] ''^'' = True \<and>
   compareVersions [90, 1, 0] [90, 0, 5] ''^'' = True \<and>
   compareVersions [90, 0, 4] [90, 0, 5] ''^'' = False"
  using caret_semantics [of 89 90 9 9 0 0] caret_semantics [of 91 90 0 0 5 5]
    caret_semantics [of 90 90 1 0 0 5] caret_semantics [of 90 90 0 4 0 5]
  by simp

subsection \<open>Identity extractor\<close>

text \<open>
  C9. In \<^verbatim>\<open>detectPlatform\<close> the desktop tokens are tested before the mobile ones: a
  user agent that contains \<^verbatim>\<open>Windows\<close>, \<^verbatim>\<open>Linux\<close>, \<^verbatim>\<open>Macintosh\<close> or \<^verbatim>\<open>Mac OS\<close> is
  a desktop, whatever mobile tokens it also contains.
\<close>

theorem detectPlatform_desktop_first:
  "includesStr ua ''Windows'' \<or> includesStr ua ''Linux'' \<or>
   includesStr ua ''Macintosh'' \<or> includesStr ua ''Mac OS''
   \<Longrightarrow> detectPlatform ua = DESKTOP"
  by (auto simp add: detectPlatform_def)

text \<open>
  C9, an instance: the user agent of Chrome on an Android phone contains
  \<^verbatim>\<open>Linux; Android\<close> and \<^verbatim>\<open>Mobile\<close>, and is a desktop.
\<close>

theorem detectPlatform_desktop_first_witness:
  "includesStr android_userAgent ''Linux; Android'' \<and> includesStr android_userAgent ''Mobile'' \<and>
   detectPlatform android_userAgent = DESKTOP"
proof -
  have h: "includesStr android_userAgent ''Linux''"
    and m: "includesStr android_userAgent ''Linux; Android''" "includesStr android_userAgent ''Mobile''"
    by code_simp+
  from h have "includesStr android_userAgent ''Windows'' \<or> includesStr android_userAgent ''Linux'' \<or>
      includesStr android_userAgent ''Macintosh'' \<or> includesStr android_userAgent ''Mac OS''"
    by simp
  from detectPlatform_desktop_first [OF this] m show ?thesis by simp
qed

lemma detectors_loop_find:
  "detectors_loop ds ua =
     (case find (\<lambda>d. condition d ua) ds of
        None \<Rightarrow> None
      | Some d \<Rightarrow>
          Some (browser d,
            (case customVersionProcessor d of
               Some f \<Rightarrow> f (match ua (versionRegex d))
             | None \<Rightarrow> (case match ua (versionRegex d) of Some m1 \<Rightarrow> m1 | None \<Rightarrow> ''0.0.0''))))"
  by (induction ds) (auto simp add: Let_def)

lemma custom_processor_null:
  "d \<in> set supportedBrowserDetectors \<Longrightarrow>
   (case customVersionProcessor d of Some f \<Rightarrow> f None | None \<Rightarrow> ''0.0.0'') = ''0.0.0''"
  by (auto simp add: supportedBrowserDetectors_def append_zero_def)

text \<open>
  C10, as amended. When the first detector of the list whose condition holds has its
  version pattern nowhere in the user agent, the result is that detector's browser with
  the version \<^verbatim>\<open>'0.0.0'\<close>. A detector further down the list whose condition holds as
  well is never reached.
\<close>

theorem detectBrowser_no_version:
  assumes "find (\<lambda>d. condition d ua) supportedBrowserDetectors = Some d"
    and "match ua (versionRegex d) = None"
  shows "detectBrowser ua = (browser d, ''0.0.0'')"
proof -
  from assms(1) have "d \<in> set supportedBrowserDetectors"
    by (auto simp add: find_Some_iff)
  from custom_processor_null [OF this] assms show ?thesis
    by (simp add: detectBrowser_def detectors_loop_find split: option.splits)
qed

text \<open>
  C10, an instance: a user agent with \<^verbatim>\<open>Chrome\<close>, \<^verbatim>\<open>Safari\<close> and \<^verbatim>\<open>Line\<close>, none of
  the Edge, Opera, Samsung and Brave markers, and no \<^verbatim>\<open>Line/x.y.z\<close> is LINE at version
  \<^verbatim>\<open>'0.0.0'\<close>.
\<close>

theorem detectBrowser_no_version_witness:
  "condition (supportedBrowserDetectors ! 0) line_userAgent_no_version \<and>
   match line_userAgent_no_version (versionRegex (supportedBrowserDetectors ! 0)) = None \<and>
   detectBrowser line_userAgent_no_version = (LINE, ''0.0.0'')"
proof -
  have c: "condition (supportedBrowserDetectors ! 0) line_userAgent_no_version"
    by code_simp
  have m: "match line_userAgent_no_version (versionRegex (supportedBrowserDetectors ! 0)) = None"
    by code_simp
  have hd: "supportedBrowserDetectors = supportedBrowserDetectors ! 0 # tl supportedBrowserDetectors"
    by (simp add: supportedBrowserDetectors_def)
  have f: "find (\<lambda>d. condition d line_userAgent_no_version) supportedBrowserDetectors =
      Some (supportedBrowserDetectors ! 0)"
    by (subst hd) (simp add: c)
  have b: "browser (supportedBrowserDetectors ! 0) = LINE"
    by (simp add: supportedBrowserDetectors_def)
  from detectBrowser_no_version [OF f m] c m b show ?thesis by simp
qed

text \<open>
  C10 as stated fails: in \<^verbatim>\<open>Chrome/100.0.0 Firefox\<close> the condition of the Firefox
  detector holds and its pattern \<^verbatim>\<open>Firefox/x.y\<close> occurs nowhere, yet the Chrome
  detector comes first in the list and the result is CHROME at version \<^verbatim>\<open>'100.0.0'\<close>.
\<close>

theorem later_detector_counterexample:
  "browser (supportedBrowserDetectors ! 4) = FIREFOX \<and>
   condition (supportedBrowserDetectors ! 4) ''Chrome/100.0.0 Firefox'' = True \<and>
   match ''Chrome/100.0.0 Firefox'' (versionRegex (supportedBrowserDetectors ! 4)) = None \<and>
   detectBrowser ''Chrome/100.0.0 Firefox'' = (CHROME, ''100.0.0'')"
  by code_simp

lemma brands_loop_skip:
  "\<forall>p \<in> set pre. \<exists>n. brand p = Str n \<and>
      \<not> edge_like n \<and> \<not> samsung_like n \<and> \<not> chrome_like n \<and> \<not> firefox_like n
   \<Longrightarrow> brands_loop (pre @ rest) = brands_loop rest"
  by (induction pre)
    (auto simp add: toLowerCase_any_def edge_like_def samsung_like_def chrome_like_def
      firefox_like_def)

text \<open>
  C1, as amended. The brand list is scanned in list order. The first entry whose name is
  Edge-like, Samsung-like, Chrome-like (contains \<^verbatim>\<open>chrome\<close> and not \<^verbatim>\<open>chromium\<close>) or
  Firefox-like decides the kind and gives the version, whatever follows it in the list;
  the order Edge, Samsung, Chrome, Firefox ranks the tests made on that one name only.
\<close>

theorem first_listed_brand_decides:
  assumes "navigator_userAgentData w = Some uad"
    and "uad_brands uad = Some (pre @ b # post)"
    and "\<forall>p \<in> set pre. \<exists>n. brand p = Str n \<and>
           \<not> edge_like n \<and> \<not> samsung_like n \<and> \<not> chrome_like n \<and> \<not> firefox_like n"
    and "brand b = Str s"
    and "edge_like s \<or> samsung_like s \<or> chrome_like s \<or> firefox_like s"
  shows "detectBrowserFromClientHints w =
           Some (if edge_like s then EDGE else if samsung_like s then SAMSUNG
                 else if chrome_like s then CHROME else FIREFOX,
                 brand_version b)"
  using assms(1,2,4,5) brands_loop_skip [OF assms(3), of "b # post"]
  by (auto simp add: detectBrowserFromClientHints_def detectBrowserFromClientHints_try_def
      toLowerCase_any_def edge_like_def samsung_like_def chrome_like_def firefox_like_def)

text \<open>
  C1, an instance: after two entries that pass none of the tests, \<^verbatim>\<open>Google Chrome\<close>
  decides, although \<^verbatim>\<open>Microsoft Edge\<close> follows it.
\<close>

theorem first_listed_brand_decides_witness:
  "chrome_like ''Google Chrome'' \<and> \<not> edge_like ''Google Chrome'' \<and> edge_like ''Microsoft Edge'' \<and>
   detectBrowserFromClientHints
     (brands_window [brand_entry ''Not A;Brand'' ''8'', brand_entry ''Chromium'' ''120'',
        brand_entry ''Google Chrome'' ''120'', brand_entry ''Microsoft Edge'' ''121'']) =
     Some (CHROME, Str ''120'')"
proof -
  let ?pre = "[brand_entry ''Not A;Brand'' ''8'', brand_entry ''Chromium'' ''120'']"
  let ?b = "brand_entry ''Google Chrome'' ''120''"
  let ?post = "[brand_entry ''Microsoft Edge'' ''121'']"
  have k: "chrome_like ''Google Chrome''" "\<not> edge_like ''Google Chrome''"
    "\<not> samsung_like ''Google Chrome''" "edge_like ''Microsoft Edge''"
    by code_simp+
  have n: "\<not> edge_like ''Not A;Brand''" "\<not> samsung_like ''Not A;Brand''"
    "\<not> chrome_like ''Not A;Brand''" "\<not> firefox_like ''Not A;Brand''"
    "\<not> edge_like ''Chromium''" "\<not> samsung_like ''Chromium''"
    "\<not> chrome_like ''Chromium''" "\<not> firefox_like ''Chromium''"
    by code_simp+
  have 1: "navigator_userAgentData (brands_window (?pre @ ?b # ?post)) =
      Some (sample_uad (?pre @ ?b # ?post))"
    by (simp add: brands_window_def)
  have 2: "uad_brands (sample_uad (?pre @ ?b # ?post)) = Some (?pre @ ?b # ?post)"
    by (simp add: sample_uad_def)
  have 3: "\<forall>p \<in> set ?pre. \<exists>n. brand p = Str n \<and>
      \<not> edge_like n \<and> \<not> samsung_like n \<and> \<not> chrome_like n \<and> \<not> firefox_like n"
    using n by (simp add: brand_entry_def)
  have 4: "brand ?b = Str ''Google Chrome''"
    by (simp add: brand_entry_def)
  have 5: "edge_like ''Google Chrome'' \<or> samsung_like ''Google Chrome'' \<or>
      chrome_like ''Google Chrome'' \<or> firefox_like ''Google Chrome''"
    using k by simp
  from first_listed_brand_decides [OF 1 2 3 4 5] k show ?thesis
    by (simp add: brand_entry_def)
qed

text \<open>
  C1 as stated fails: a list with the Chrome-like \<^verbatim>\<open>Google Chrome\<close> before the
  Edge-like \<^verbatim>\<open>Microsoft Edge\<close> is detected as CHROME, and as EDGE in the other order.
\<close>

theorem brand_priority_counterexample:
  "chrome_like ''Google Chrome'' \<and> edge_like ''Microsoft Edge'' \<and>
   detectBrowserFromClientHints
     (brands_window [brand_entry ''Google Chrome'' ''120'', brand_entry ''Microsoft Edge'' ''121''])
     = Some (CHROME, Str ''120'') \<and>
   detectBrowserFromClientHints
     (brands_window [brand_entry ''Microsoft Edge'' ''121'', brand_entry ''Google Chrome'' ''120''])
     = Some (EDGE, Str ''121'')"
  by code_simp

subsection \<open>Compatibility evaluator\<close>

text \<open>
  C6. In the \<^verbatim>\<open>BrowserInfo\<close> that \<^verbatim>\<open>getBrowserCompatibilityInfo\<close> builds,
  \<^verbatim>\<open>minimumVersion\<close> is \<^verbatim>\<open>null\<close> exactly when the detected kind is LINE or UNKNOWN,
  the two kinds without an entry in the table of minimum versions, and then
  \<^verbatim>\<open>isSupported\<close> is false.
\<close>

theorem minimumVersion_null_iff:
  "(minimumVersion (getBrowserCompatibilityInfo config w) = None \<longleftrightarrow>
      name (getBrowserCompatibilityInfo config w) = LINE \<or>
      name (getBrowserCompatibilityInfo config w) = UNKNOWN) \<and>
   (minimumVersion (getBrowserCompatibilityInfo config w) = None \<longrightarrow>
      isSupported (getBrowserCompatibilityInfo config w) = False)"
proof -
  obtain n v p where pu: "parseUserAgent w (navigator_userAgent w) = (n, v, p)"
    by (cases "parseUserAgent w (navigator_userAgent w)") auto
  show ?thesis
    by (cases n) (simp_all add: getBrowserCompatibilityInfo_def pu Let_def)
qed

text \<open>
  C6, instances: an unrecognised user agent is UNKNOWN, without minimum version and
  unsupported; an old Chrome has the configured minimum version.
\<close>

theorem minimumVersion_null_iff_witness:
  "name (getBrowserCompatibilityInfo sample_config
      (sample_window ''https://example.com/app'' ''curl/8.5.0'')) = UNKNOWN \<and>
   minimumVersion (getBrowserCompatibilityInfo sample_config
      (sample_window ''https://example.com/app'' ''curl/8.5.0'')) = None \<and>
   isSupported (getBrowserCompatibilityInfo sample_config
      (sample_window ''https://example.com/app'' ''curl/8.5.0'')) = False \<and>
   minimumVersion (getBrowserCompatibilityInfo sample_config
      (sample_window ''https://example.com/app'' old_chrome_userAgent)) = Some ''>=90.0.0''"
proof -
  have u: "name (getBrowserCompatibilityInfo sample_config
      (sample_window ''https://example.com/app'' ''curl/8.5.0'')) = UNKNOWN"
    by code_simp
  have c: "minimumVersion (getBrowserCompatibilityInfo sample_config
      (sample_window ''https://example.com/app'' old_chrome_userAgent)) = Some ''>=90.0.0''"
    by code_simp
  from minimumVersion_null_iff
    [of sample_config "sample_window ''https://example.com/app'' ''curl/8.5.0''"] u c
  show ?thesis by simp
qed

subsection \<open>Navigation policy\<close>

text \<open>
  C2. When the current URL has a query parameter named \<^verbatim>\<open>openExternalBrowser\<close>, with
  whatever value, a pass of the service requests no navigation: neither a replace nor
  an assignment, for every user agent, hints and configuration.
\<close>

theorem marker_present_no_navigation:
  "has (searchParams (URL (location_href w))) ''openExternalBrowser''
   \<Longrightarrow> checkBrowserCompatibility config w = Inr []"
  by (simp add: checkBrowserCompatibility_def)

text \<open>
  C2, an instance: the LINE in-app browser on a URL that carries the parameter.
\<close>

theorem marker_present_no_navigation_witness:
  "has (searchParams (URL (location_href
      (sample_window ''https://example.com/app?a=1&openExternalBrowser=1'' line_userAgent))))
      ''openExternalBrowser'' \<and>
   checkBrowserCompatibility sample_config
     (sample_window ''https://example.com/app?a=1&openExternalBrowser=1'' line_userAgent) = Inr []"
proof -
  have h: "has (searchParams (URL (location_href
      (sample_window ''https://example.com/app?a=1&openExternalBrowser=1'' line_userAgent))))
      ''openExternalBrowser''"
    by code_simp
  from marker_present_no_navigation [OF h, of sample_config] h show ?thesis by simp
qed






lemma search_from_negative: "search_from i s t < 0 \<longleftrightarrow> \<not> includesStr s t"
  by (induction s arbitrary: i) auto

lemma params_set_absent: "\<not> has ps n \<Longrightarrow> params_set ps n v = ps @ [(n, v)]"
  by (induction ps) (auto simp add: has_def)

text \<open>
  What the service does for LINE: with the gate enabled, no \<^verbatim>\<open>openExternalBrowser\<close>
  parameter and, in addition, no occurrence of the text \<^verbatim>\<open>openExternalBrowser\<close>
  anywhere in \<^verbatim>\<open>location.href\<close>, on a page whose origin parses and whose query
  parameters are ASCII, the one navigation requested is a replace by the current URL
  with the pair \<^verbatim>\<open>openExternalBrowser=1\<close> appended to its parameters.
\<close>

lemma line_handoff:
  assumes "\<not> has (searchParams (URL (location_href w))) ''openExternalBrowser''"
    and "enabled config"
    and "name (getBrowserCompatibilityInfo config w) = LINE"
    and "\<not> includesStr (location_href w) ''openExternalBrowser''"
    and "\<not> startsWith (location_href w) ''/''"
    and "has_scheme (location_origin w)"
    and "list_all (\<lambda>p. ascii (fst p) \<and> ascii (snd p)) (searchParams (URL (location_href w)))"
  shows "\<exists>target. checkBrowserCompatibility config w = Inr [Replace (url_toString target)] \<and>
           target = url_searchParams_set (URL (location_href w)) ''openExternalBrowser'' ''1'' \<and>
           u_base target = u_base (URL (location_href w)) \<and>
           u_fragment target = u_fragment (URL (location_href w)) \<and>
           params_set (searchParams (URL (location_href w))) ''openExternalBrowser'' ''1'' =
             searchParams (URL (location_href w)) @ [(''openExternalBrowser'', ''1'')]"
  using assms(1-6)
  by (simp add: checkBrowserCompatibility_def search_def search_from_negative Let_def
      URL_with_base_def url_searchParams_set_def params_set_absent)

text \<open>
  C3 at a failing input. The LINE in-app browser opens
  \<^verbatim>\<open>https://example.com/app?ref=openExternalBrowser\<close> with the gate enabled. The URL has
  one parameter, \<^verbatim>\<open>ref\<close>, and none named \<^verbatim>\<open>openExternalBrowser\<close>, so the entry guard
  lets the pass go on; but the second test looks for the text anywhere in
  \<^verbatim>\<open>location.href\<close> and finds it in the value. No replace is requested: LINE, which
  has no minimum version, is sent to the error page by assignment.
\<close>

theorem line_with_marker_text_elsewhere:
  "searchParams (URL ''https://example.com/app?ref=openExternalBrowser'') =
     [(''ref'', ''openExternalBrowser'')] \<and>
   has (searchParams (URL ''https://example.com/app?ref=openExternalBrowser''))
     ''openExternalBrowser'' = False \<and>
   enabled sample_config = True \<and>
   name (getBrowserCompatibilityInfo sample_config
     (sample_window ''https://example.com/app?ref=openExternalBrowser'' line_userAgent)) = LINE \<and>
   checkBrowserCompatibility sample_config
     (sample_window ''https://example.com/app?ref=openExternalBrowser'' line_userAgent) =
     Inr [Assign ''https://example.com/browser-error?ref=openExternalBrowser'']"
  by code_simp

end
